theory Spec2Isabelle
  imports Main "HOL-Library.Word"
begin

unbundle bit_operations_syntax

section \<open>The CTAP-HID transport engine of virtual\_fido (ctap\_hid.go)\<close>

subsection \<open>Constants and basic types\<close>

type_synonym byte = "8 word"
type_synonym CTAPHIDChannelID = "32 word"
type_synonym CTAPHIDCommand = "8 word"
type_synonym CTAPHIDErrorCode = "8 word"

definition CTAPHID_BROADCAST_CHANNEL :: CTAPHIDChannelID where
  "CTAPHID_BROADCAST_CHANNEL = 0xFFFFFFFF"

definition CTAPHID_COMMAND_MSG :: CTAPHIDCommand where
  "CTAPHID_COMMAND_MSG = 0x83"

definition CTAPHID_COMMAND_CBOR :: CTAPHIDCommand where
  "CTAPHID_COMMAND_CBOR = 0x90"

definition CTAPHID_COMMAND_INIT :: CTAPHIDCommand where
  "CTAPHID_COMMAND_INIT = 0x86"

definition CTAPHID_COMMAND_PING :: CTAPHIDCommand where
  "CTAPHID_COMMAND_PING = 0x81"

definition CTAPHID_COMMAND_ERROR :: CTAPHIDCommand where
  "CTAPHID_COMMAND_ERROR = 0xBF"

definition CTAPHID_ERR_INVALID_COMMAND :: CTAPHIDErrorCode where
  "CTAPHID_ERR_INVALID_COMMAND = 0x01"

definition CTAPHID_ERR_INVALID_CHANNEL :: CTAPHIDErrorCode where
  "CTAPHID_ERR_INVALID_CHANNEL = 0x0B"

definition CTAPHIDSERVER_MAX_PACKET_SIZE :: int where
  "CTAPHIDSERVER_MAX_PACKET_SIZE = 64"

record CTAPHIDMessageHeader =
  ChannelID :: CTAPHIDChannelID
  Command :: CTAPHIDCommand
  PayloadLength :: "16 word"

subsection \<open>Helpers of the package that ctap\_hid.go calls\<close>

text \<open>Modelled from the spec: \<^verbatim>\<open>toLE\<close> at a 32-bit channel id is missing from the sources;
  the spec's packet layout has the channel id as 4 bytes, little-endian (least significant
  byte first).\<close>

definition toLE32 :: "32 word \<Rightarrow> byte list" where
  "toLE32 w = [ucast w, ucast (drop_bit 8 w), ucast (drop_bit 16 w), ucast (drop_bit 24 w)]"

text \<open>Modelled from the spec: \<^verbatim>\<open>toLE\<close> at a one-byte value (a command) is missing from the
  sources; the spec's layout has the command as 1 byte.\<close>

definition toLE8 :: "8 word \<Rightarrow> byte list" where
  "toLE8 w = [w]"

text \<open>Modelled from the spec: \<^verbatim>\<open>toBE\<close> at a 16-bit length is missing from the sources; the
  spec's layout has the payload length as 2 bytes, big-endian (most significant byte first).\<close>

definition toBE16 :: "16 word \<Rightarrow> byte list" where
  "toBE16 w = [ucast (drop_bit 8 w), ucast w]"

text \<open>Modelled from the spec: \<^verbatim>\<open>flatten\<close> is missing from the sources; by its use in
  \<^verbatim>\<open>newCTAPHIDMessageHeader\<close> and the spec's layout it joins the byte slices in order.\<close>

definition flatten :: "byte list list \<Rightarrow> byte list" where
  "flatten arrays = concat arrays"

text \<open>Modelled from the spec: \<^verbatim>\<open>pad\<close> is missing from the sources; the spec has every packet
  zero-padded to 64 bytes. The result is a new slice of exactly \<open>n\<close> bytes that starts with
  the source bytes (as many as fit) and is zero after them.\<close>

definition pad :: "byte list \<Rightarrow> nat \<Rightarrow> byte list" where
  "pad src n = take n src @ replicate (n - length src) 0"

text \<open>Modelled from the spec: \<^verbatim>\<open>readLE\<close> and \<^verbatim>\<open>readBE\<close> are missing from the sources; they
  consume the leading bytes of a buffer in the byte order of the spec's layout and leave the
  rest of the buffer. Here \<^verbatim>\<open>readLE\<close> at a channel id: 4 bytes, little-endian. What the
  helpers do on a buffer that is too short is not fixed by the spec: the model returns
  \<open>None\<close> there, and the callers turn it into the failure \<open>ShortRead\<close>.\<close>

definition readLE32 :: "byte list \<Rightarrow> (32 word \<times> byte list) option" where
  "readLE32 buffer =
     (case buffer of
        b0 # b1 # b2 # b3 # rest \<Rightarrow>
          Some (ucast b0 OR push_bit 8 (ucast b1) OR push_bit 16 (ucast b2)
                  OR push_bit 24 (ucast b3), rest)
      | _ \<Rightarrow> None)"

text \<open>Modelled from the spec: \<^verbatim>\<open>readLE\<close> at a one-byte value (the command byte of the
  spec's layout), missing from the sources like the one above.\<close>

definition readLE8 :: "byte list \<Rightarrow> (8 word \<times> byte list) option" where
  "readLE8 buffer = (case buffer of b0 # rest \<Rightarrow> Some (b0, rest) | _ \<Rightarrow> None)"

text \<open>Modelled from the spec: \<^verbatim>\<open>readBE\<close> at a 16-bit value (the payload length of the
  spec's layout, 2 bytes, big-endian), missing from the sources.\<close>

definition readBE16 :: "byte list \<Rightarrow> (16 word \<times> byte list) option" where
  "readBE16 buffer =
     (case buffer of
        b0 # b1 # rest \<Rightarrow> Some (push_bit 8 (ucast b0) OR ucast b1, rest)
      | _ \<Rightarrow> None)"

text \<open>Modelled from the spec: \<^verbatim>\<open>sizeOf\<close> is missing from the sources; the sizes are those of
  the spec's layout. Here the channel id, 4 bytes.\<close>

definition sizeOf_CTAPHIDChannelID :: nat where
  "sizeOf_CTAPHIDChannelID = 4"

text \<open>Modelled from the spec: \<^verbatim>\<open>sizeOf\<close> at a command, 1 byte in the spec's layout.\<close>

definition sizeOf_CTAPHIDCommand :: nat where
  "sizeOf_CTAPHIDCommand = 1"

text \<open>Modelled from the spec: \<^verbatim>\<open>sizeOf\<close> at the payload length, 2 bytes in the spec's
  layout.\<close>

definition sizeOf_uint16 :: nat where
  "sizeOf_uint16 = 2"

subsection \<open>The packet codec\<close>

definition newCTAPHIDMessageHeader ::
    "CTAPHIDChannelID \<Rightarrow> CTAPHIDCommand \<Rightarrow> 16 word \<Rightarrow> byte list" where
  "newCTAPHIDMessageHeader channelID command len =
     flatten [toLE32 channelID, toLE8 command, toBE16 len]"

text \<open>The loop of \<^verbatim>\<open>createResponsePackets\<close>, with its three variables \<open>packets\<close>,
  \<open>sequence\<close> and \<open>payload\<close> as arguments. \<open>uint16(len(payload))\<close> and
  \<open>uint8(sequence)\<close> are the conversions \<open>of_nat\<close> and \<open>of_int\<close> into words, which
  keep the low bits.\<close>

function createResponsePackets_loop ::
    "CTAPHIDChannelID \<Rightarrow> CTAPHIDCommand \<Rightarrow> byte list list \<Rightarrow> int \<Rightarrow> byte list
      \<Rightarrow> byte list list" where
  "createResponsePackets_loop channelId command packets sequence payload =
     (if length payload > 0 then
        (let packet0 = (if sequence < 0
                        then newCTAPHIDMessageHeader channelId command (of_nat (length payload))
                        else toLE32 channelId @ [of_int sequence]);
             bytesLeft0 = CTAPHIDSERVER_MAX_PACKET_SIZE - int (length packet0);
             bytesLeft = (if bytesLeft0 > int (length payload)
                          then int (length payload) else bytesLeft0);
             packet1 = packet0 @ take (nat bytesLeft) payload
         in createResponsePackets_loop channelId command
              (packets @ [pad packet1 (nat CTAPHIDSERVER_MAX_PACKET_SIZE)])
              (sequence + 1)
              (drop (nat bytesLeft) payload))
      else packets)"
  by pat_completeness auto
termination
  by (relation "measure (\<lambda>(channelId, command, packets, sequence, payload). length payload)")
     (auto simp: CTAPHIDSERVER_MAX_PACKET_SIZE_def newCTAPHIDMessageHeader_def flatten_def
        toLE32_def toLE8_def toBE16_def split: if_splits)

definition createResponsePackets ::
    "CTAPHIDChannelID \<Rightarrow> CTAPHIDCommand \<Rightarrow> byte list \<Rightarrow> byte list list" where
  "createResponsePackets channelId command payload =
     createResponsePackets_loop channelId command [] (- 1) payload"

definition ctapHidError :: "CTAPHIDChannelID \<Rightarrow> CTAPHIDErrorCode \<Rightarrow> byte list list" where
  "ctapHidError channelId err = createResponsePackets channelId CTAPHID_COMMAND_ERROR [err]"

subsection \<open>Go slices\<close>

text \<open>A Go slice is a window on a backing array: it has a length and a capacity, and a slice
  expression \<^verbatim>\<open>s[:high]\<close> may reach up to the capacity, beyond the length. The model keeps
  the bytes of the window (\<open>elems\<close>) and the bytes of the backing array after the window, up
  to the capacity (\<open>spare\<close>). Every report is taken to have a backing array of its own,
  which its sender does not write again.\<close>

record slice =
  elems :: "byte list"
  spare :: "byte list"

definition new_slice :: "byte list \<Rightarrow> slice" where
  "new_slice bs = \<lparr>elems = bs, spare = []\<rparr>"

datatype panic =
    ShortRead
  | SliceBoundsOutOfRange
  | NilPointerDereference
  | InvalidBroadcastCommand CTAPHIDMessageHeader
  | InvalidChannelCommand CTAPHIDMessageHeader

text \<open>\<^verbatim>\<open>s[low:]\<close>: the upper bound is the length, so \<open>low\<close> may not exceed it.\<close>

definition slice_from :: "slice \<Rightarrow> nat \<Rightarrow> panic + slice" where
  "slice_from s low =
     (if low \<le> length (elems s) then Inr (s\<lparr>elems := drop low (elems s)\<rparr>)
      else Inl SliceBoundsOutOfRange)"

text \<open>\<^verbatim>\<open>s[:high]\<close>: for a slice the bound of \<open>high\<close> is the capacity, not the length.\<close>

definition slice_to :: "slice \<Rightarrow> nat \<Rightarrow> panic + slice" where
  "slice_to s high =
     (if high \<le> length (elems s) + length (spare s)
      then Inr \<lparr>elems = take high (elems s @ spare s), spare = drop high (elems s @ spare s)\<rparr>
      else Inl SliceBoundsOutOfRange)"

text \<open>\<^verbatim>\<open>append(s, xs...)\<close> writes into the spare capacity when \<open>xs\<close> fits there; otherwise
  the runtime allocates a larger array. How much larger is the runtime's choice: the model
  takes it as the parameter \<open>grow\<close>, which gives the spare capacity of the new array from
  the old capacity and the new length.\<close>

definition append_slice :: "(nat \<Rightarrow> nat \<Rightarrow> nat) \<Rightarrow> slice \<Rightarrow> byte list \<Rightarrow> slice" where
  "append_slice grow s xs =
     (if length xs \<le> length (spare s)
      then \<lparr>elems = elems s @ xs, spare = drop (length xs) (spare s)\<rparr>
      else \<lparr>elems = elems s @ xs,
            spare = replicate (grow (length (elems s) + length (spare s))
                                 (length (elems s) + length xs)) 0\<rparr>)"

text \<open>\<^verbatim>\<open>copy(dst, src)\<close> on a destination array: the first \<open>min (len dst) (len src)\<close>
  bytes of the destination are overwritten.\<close>

definition copy_bytes :: "byte list \<Rightarrow> byte list \<Rightarrow> byte list" where
  "copy_bytes dst src = take (length dst) src @ drop (length src) dst"

subsection \<open>Channels and the server\<close>

record CTAPHIDInitReponse =
  Nonce :: "byte list"
  NewChannelID :: CTAPHIDChannelID
  ProtocolVersion :: "8 word"
  DeviceVersionMajor :: "8 word"
  DeviceVersionMinor :: "8 word"
  DeviceVersionBuild :: "8 word"
  CapabilitiesFlags :: "8 word"

text \<open>Modelled from the spec: \<^verbatim>\<open>toLE\<close> at the init response is missing from the sources.
  The spec has the response as the nonce, the new channel id, the protocol version, the
  device version and the capability flags, which is the order of the struct's fields. The
  channel id is written little-endian, as the helper's name says and as the spec's packet
  layout has every channel id; the other fields are one byte each.\<close>

definition toLE_CTAPHIDInitReponse :: "CTAPHIDInitReponse \<Rightarrow> byte list" where
  "toLE_CTAPHIDInitReponse r =
     Nonce r @ toLE32 (NewChannelID r) @
     [ProtocolVersion r, DeviceVersionMajor r, DeviceVersionMinor r, DeviceVersionBuild r,
      CapabilitiesFlags r]"

record CTAPHIDChannel =
  channelId :: CTAPHIDChannelID
  inProgressHeader :: "CTAPHIDMessageHeader option"
  inProgressPayload :: "slice option"

definition NewCTAPHIDChannel :: "CTAPHIDChannelID \<Rightarrow> CTAPHIDChannel" where
  "NewCTAPHIDChannel cid =
     \<lparr>channelId = cid, inProgressHeader = None, inProgressPayload = None\<rparr>"

text \<open>The server. The two command processors are outside this file: they are the functions
  \<open>u2fServer\<close> (for \<^verbatim>\<open>handleU2FMessage\<close>) and \<open>ctapServer\<close> (for \<^verbatim>\<open>handleMessage\<close> of the
  CTAP server) from a payload to a response payload. \<open>channels\<close> is the map from channel id
  to the channel object stored under it; a channel object is referenced from this map only.
  \<open>responses\<close> is the content of the buffered Go channel of that name, oldest packet first.
  \<open>waitingForResponses\<close> maps a caller's id to its kill switch, a Go channel named here by a
  number.\<close>

record CTAPHIDServer =
  ctapServer :: "byte list \<Rightarrow> byte list"
  u2fServer :: "byte list \<Rightarrow> byte list"
  maxChannelID :: CTAPHIDChannelID
  channels :: "CTAPHIDChannelID \<rightharpoonup> CTAPHIDChannel"
  responses :: "byte list list"
  waitingForResponses :: "32 word \<rightharpoonup> nat"

definition newCTAPHIDServer ::
    "(byte list \<Rightarrow> byte list) \<Rightarrow> (byte list \<Rightarrow> byte list) \<Rightarrow> CTAPHIDServer" where
  "newCTAPHIDServer ctap u2f =
     \<lparr>ctapServer = ctap, u2fServer = u2f, maxChannelID = 0,
      channels = [CTAPHID_BROADCAST_CHANNEL \<mapsto> NewCTAPHIDChannel CTAPHID_BROADCAST_CHANNEL],
      responses = [], waitingForResponses = Map.empty\<rparr>"

subsection \<open>The command dispatcher\<close>

definition handleBroadcastMessage ::
    "CTAPHIDServer \<Rightarrow> CTAPHIDMessageHeader \<Rightarrow> slice \<Rightarrow> panic + (CTAPHIDServer \<times> byte list list)"
    where
  "handleBroadcastMessage server header payload =
     (if Command header = CTAPHID_COMMAND_INIT then
        (case slice_to payload 8 of
           Inl e \<Rightarrow> Inl e
         | Inr nonce \<Rightarrow>
             (let response = \<lparr>Nonce = copy_bytes (replicate 8 0) (elems nonce),
                              NewChannelID = maxChannelID server + 1,
                              ProtocolVersion = 2,
                              DeviceVersionMajor = 0,
                              DeviceVersionMinor = 0,
                              DeviceVersionBuild = 1,
                              CapabilitiesFlags = 0\<rparr>;
                  server1 = server\<lparr>maxChannelID := maxChannelID server + 1\<rparr>;
                  server2 = server1\<lparr>channels := (channels server1)
                              (NewChannelID response \<mapsto> NewCTAPHIDChannel (NewChannelID response))\<rparr>
              in Inr (server2,
                      createResponsePackets CTAPHID_BROADCAST_CHANNEL CTAPHID_COMMAND_INIT
                        (toLE_CTAPHIDInitReponse response))))
      else if Command header = CTAPHID_COMMAND_PING then
        Inr (server,
             createResponsePackets CTAPHID_BROADCAST_CHANNEL CTAPHID_COMMAND_PING (elems payload))
      else Inl (InvalidBroadcastCommand header))"

definition handleDataMessage ::
    "CTAPHIDServer \<Rightarrow> CTAPHIDMessageHeader \<Rightarrow> slice \<Rightarrow> panic + (CTAPHIDServer \<times> byte list list)"
    where
  "handleDataMessage server header payload =
     (if Command header = CTAPHID_COMMAND_MSG then
        (let responsePayload = u2fServer server (elems payload)
         in Inr (server, createResponsePackets (ChannelID header) CTAPHID_COMMAND_MSG responsePayload))
      else if Command header = CTAPHID_COMMAND_CBOR then
        (let responsePayload = ctapServer server (elems payload)
         in Inr (server, createResponsePackets (ChannelID header) CTAPHID_COMMAND_CBOR responsePayload))
      else if Command header = CTAPHID_COMMAND_PING then
        Inr (server, createResponsePackets (ChannelID header) CTAPHID_COMMAND_PING (elems payload))
      else Inl (InvalidChannelCommand header))"

definition handleFinalizedMessage ::
    "CTAPHIDServer \<Rightarrow> CTAPHIDChannel \<Rightarrow> CTAPHIDMessageHeader \<Rightarrow> slice
      \<Rightarrow> panic + (CTAPHIDServer \<times> byte list list)" where
  "handleFinalizedMessage server channel header payload =
     (if channelId channel = CTAPHID_BROADCAST_CHANNEL
      then handleBroadcastMessage server header payload
      else handleDataMessage server header payload)"

subsection \<open>The channel's framing state machine\<close>

text \<open>\<^verbatim>\<open>CTAPHIDChannel.handleMessage\<close> in two parts. The first, \<open>channel_framing\<close>, is the
  function up to its calls of \<^verbatim>\<open>handleFinalizedMessage\<close>: it returns the channel as the call
  leaves it and, when the message is complete, the header and payload that go to the
  dispatcher. In the branch of a follow-up packet the source clears the in-progress fields
  after the dispatcher has returned; the dispatcher reads no in-progress field, so the
  order does not show.\<close>

datatype framing =
    NeedFollowup CTAPHIDChannel
  | Finalized CTAPHIDChannel CTAPHIDMessageHeader slice

definition channel_framing ::
    "(nat \<Rightarrow> nat \<Rightarrow> nat) \<Rightarrow> CTAPHIDChannel \<Rightarrow> slice \<Rightarrow> panic + framing" where
  "channel_framing grow channel message =
     (case inProgressPayload channel of
        Some inProgress \<Rightarrow>
          (case inProgressHeader channel of
             None \<Rightarrow> Inl NilPointerDereference
           | Some header \<Rightarrow>
               (let payloadLeft = int (unat (PayloadLength header)) - int (length (elems inProgress));
                    payloadIndex = sizeOf_CTAPHIDChannelID + 1
                in case slice_from message payloadIndex of
                     Inl e \<Rightarrow> Inl e
                   | Inr payload \<Rightarrow>
                       if payloadLeft > int (length (elems payload))
                       then Inr (NeedFollowup
                              (channel\<lparr>inProgressPayload :=
                                 Some (append_slice grow inProgress (elems payload))\<rparr>))
                       else Inr (Finalized
                              (channel\<lparr>inProgressHeader := None, inProgressPayload := None\<rparr>)
                              header
                              (append_slice grow inProgress (elems payload)))))
      | None \<Rightarrow>
          (case readLE32 (elems message) of
             None \<Rightarrow> Inl ShortRead
           | Some (_, buffer1) \<Rightarrow>
          (case readLE8 buffer1 of
             None \<Rightarrow> Inl ShortRead
           | Some (command, buffer2) \<Rightarrow>
          (case readBE16 buffer2 of
             None \<Rightarrow> Inl ShortRead
           | Some (payloadLength, _) \<Rightarrow>
               (let header = \<lparr>ChannelID = channelId channel, Command = command,
                               PayloadLength = payloadLength\<rparr>;
                    payloadIndex = sizeOf_CTAPHIDChannelID + sizeOf_CTAPHIDCommand + sizeOf_uint16
                in case slice_from message payloadIndex of
                     Inl e \<Rightarrow> Inl e
                   | Inr payload \<Rightarrow>
                       if payloadLength > of_nat (length (elems payload))
                       then Inr (NeedFollowup
                              (channel\<lparr>inProgressHeader := Some header,
                                       inProgressPayload := Some payload\<rparr>))
                       else (case slice_to payload (unat payloadLength) of
                               Inl e \<Rightarrow> Inl e
                             | Inr finalPayload \<Rightarrow> Inr (Finalized channel header finalPayload)))))))"

text \<open>The second part: the channel object is the one stored under \<open>key\<close> in the channel
  table, so its new state is written there; a finalized message goes to the dispatcher. The
  result \<open>None\<close> is the source's \<^verbatim>\<open>nil\<close> response.\<close>

definition channel_handleMessage ::
    "(nat \<Rightarrow> nat \<Rightarrow> nat) \<Rightarrow> CTAPHIDServer \<Rightarrow> CTAPHIDChannelID \<Rightarrow> CTAPHIDChannel \<Rightarrow> slice
      \<Rightarrow> panic + (CTAPHIDServer \<times> byte list list option)" where
  "channel_handleMessage grow server key channel message =
     (case channel_framing grow channel message of
        Inl e \<Rightarrow> Inl e
      | Inr (NeedFollowup channel1) \<Rightarrow>
          Inr (server\<lparr>channels := (channels server)(key \<mapsto> channel1)\<rparr>, None)
      | Inr (Finalized channel1 header payload) \<Rightarrow>
          (case handleFinalizedMessage (server\<lparr>channels := (channels server)(key \<mapsto> channel1)\<rparr>)
                  channel header payload of
             Inl e \<Rightarrow> Inl e
           | Inr (server1, response) \<Rightarrow> Inr (server1, Some response)))"

subsection \<open>The channel manager\<close>

text \<open>\<^verbatim>\<open>sendResponse\<close> puts the packets on the Go channel \<open>responses\<close> in order. The Go
  channel holds 100 packets; a sender that finds it full waits for a receiver, which is not
  a failure and is not modelled.\<close>

definition sendResponse :: "CTAPHIDServer \<Rightarrow> byte list list \<Rightarrow> CTAPHIDServer" where
  "sendResponse server response = server\<lparr>responses := responses server @ response\<rparr>"

definition handleMessage ::
    "(nat \<Rightarrow> nat \<Rightarrow> nat) \<Rightarrow> CTAPHIDServer \<Rightarrow> slice \<Rightarrow> panic + CTAPHIDServer" where
  "handleMessage grow server message =
     (case readLE32 (elems message) of
        None \<Rightarrow> Inl ShortRead
      | Some (chanId, _) \<Rightarrow>
          (case channels server chanId of
             None \<Rightarrow>
               (let response = ctapHidError chanId CTAPHID_ERR_INVALID_CHANNEL
                in Inr (sendResponse server response))
           | Some channel \<Rightarrow>
               (case channel_handleMessage grow server chanId channel message of
                  Inl e \<Rightarrow> Inl e
                | Inr (server1, None) \<Rightarrow> Inr server1
                | Inr (server1, Some response) \<Rightarrow> Inr (sendResponse server1 response))))"

text \<open>\<^verbatim>\<open>getResponse\<close> in its two steps. It first stores a new kill switch under the caller's
  id, then waits in a \<^verbatim>\<open>select\<close> with two cases; other goroutines may run between the steps.
  \<open>getResponse_select\<close> is the step the \<^verbatim>\<open>select\<close> takes once a case is ready: the case
  \<open>ResponseReceived\<close> needs a packet on \<open>responses\<close> (the result is \<open>None\<close> when there is
  none and the call keeps waiting), the case \<open>KillSwitchReceived\<close> is the one taken when
  \<^verbatim>\<open>removeWaitingRequest\<close> sends on the kill switch. The step returns the server and the
  value \<^verbatim>\<open>getResponse\<close> returns, \<open>None\<close> for \<^verbatim>\<open>nil\<close>.\<close>

datatype select_case = ResponseReceived | KillSwitchReceived

definition getResponse_store :: "CTAPHIDServer \<Rightarrow> 32 word \<Rightarrow> nat \<Rightarrow> CTAPHIDServer" where
  "getResponse_store server ident killSwitch =
     server\<lparr>waitingForResponses := (waitingForResponses server)(ident \<mapsto> killSwitch)\<rparr>"

definition getResponse_select ::
    "CTAPHIDServer \<Rightarrow> 32 word \<Rightarrow> select_case \<Rightarrow> (CTAPHIDServer \<times> byte list option) option" where
  "getResponse_select server ident which =
     (case which of
        ResponseReceived \<Rightarrow>
          (case responses server of
             [] \<Rightarrow> None
           | response # rest \<Rightarrow> Some (server\<lparr>responses := rest\<rparr>, Some response))
      | KillSwitchReceived \<Rightarrow>
          Some (server\<lparr>waitingForResponses := (waitingForResponses server)(ident := None)\<rparr>,
                None))"

text \<open>\<^verbatim>\<open>removeWaitingRequest\<close> changes no field of the server. It returns the kill switch it
  sends on, if any (the send waits until a \<^verbatim>\<open>select\<close> receives it), and its boolean.\<close>

definition removeWaitingRequest :: "CTAPHIDServer \<Rightarrow> 32 word \<Rightarrow> nat option \<times> bool" where
  "removeWaitingRequest server ident =
     (case waitingForResponses server ident of
        Some killSwitch \<Rightarrow> (Some killSwitch, True)
      | None \<Rightarrow> (None, False))"

subsection \<open>The packet layout in the spec's words\<close>

text \<open>The two packet shapes as the spec describes them, to compare the output of
  \<open>createResponsePackets\<close> with: an initial packet is the channel id (4 bytes, little-endian),
  the command (1 byte), the payload length (2 bytes, big-endian) and a payload chunk,
  zero-padded to 64 bytes; a continuation packet is the channel id, a sequence number
  (1 byte) and a payload chunk, zero-padded to 64 bytes.\<close>

definition spec_initial_packet ::
    "CTAPHIDChannelID \<Rightarrow> CTAPHIDCommand \<Rightarrow> 16 word \<Rightarrow> byte list \<Rightarrow> byte list" where
  "spec_initial_packet c cmd len chunk =
     toLE32 c @ [cmd] @ toBE16 len @ chunk @ replicate (57 - length chunk) 0"

definition spec_continuation_packet ::
    "CTAPHIDChannelID \<Rightarrow> 8 word \<Rightarrow> byte list \<Rightarrow> byte list" where
  "spec_continuation_packet c sq chunk =
     toLE32 c @ [sq] @ chunk @ replicate (59 - length chunk) 0"

subsection \<open>Delivering a packet sequence to a channel\<close>

text \<open>The packets are given to the framing state machine of one channel, one after the
  other, each in a slice of its own whose capacity is its length (as \<^verbatim>\<open>pad\<close> allocates
  it). The result is the channel after the last packet and the messages that were handed
  to the dispatcher on the way, in order; a panic ends the delivery.\<close>

fun feed_packets ::
    "(nat \<Rightarrow> nat \<Rightarrow> nat) \<Rightarrow> CTAPHIDChannel \<Rightarrow> byte list list
      \<Rightarrow> panic + (CTAPHIDChannel \<times> (CTAPHIDMessageHeader \<times> slice) list)" where
  "feed_packets grow channel [] = Inr (channel, [])"
| "feed_packets grow channel (packet # packets) =
     (case channel_framing grow channel (new_slice packet) of
        Inl e \<Rightarrow> Inl e
      | Inr (NeedFollowup channel1) \<Rightarrow> feed_packets grow channel1 packets
      | Inr (Finalized channel1 header payload) \<Rightarrow>
          (case feed_packets grow channel1 packets of
             Inl e \<Rightarrow> Inl e
           | Inr (channel2, finalized) \<Rightarrow> Inr (channel2, (header, payload) # finalized)))"

subsection \<open>The commands of each kind of channel, in the spec's words\<close>

text \<open>The spec lists the commands the dispatcher supports: INIT and PING on the broadcast
  channel; MSG, CBOR and PING on a data channel.\<close>

definition supported_commands :: "CTAPHIDChannelID \<Rightarrow> CTAPHIDCommand set" where
  "supported_commands c =
     (if c = CTAPHID_BROADCAST_CHANNEL then {CTAPHID_COMMAND_INIT, CTAPHID_COMMAND_PING}
      else {CTAPHID_COMMAND_MSG, CTAPHID_COMMAND_CBOR, CTAPHID_COMMAND_PING})"

section \<open>Properties\<close>

declare createResponsePackets_loop.simps [simp del]

subsection \<open>Byte order\<close>

lemma readLE32_toLE32: "readLE32 (toLE32 w @ r) = Some (w, r)"
proof -
  have "ucast (ucast w :: byte) OR push_bit 8 (ucast (ucast (drop_bit 8 w) :: byte)) OR
        push_bit 16 (ucast (ucast (drop_bit 16 w) :: byte)) OR
        push_bit 24 (ucast (ucast (drop_bit 24 w) :: byte)) = w"
  proof (rule bit_word_eqI)
    fix n assume "n < LENGTH(32)"
    then show "bit (ucast (ucast w :: byte) OR
        push_bit 8 (ucast (ucast (drop_bit 8 w) :: byte)) OR
        push_bit 16 (ucast (ucast (drop_bit 16 w) :: byte)) OR
        push_bit 24 (ucast (ucast (drop_bit 24 w) :: byte)) :: 32 word) n = bit w n"
      by (cases "n < 8"; cases "n < 16"; cases "n < 24") (auto simp add: bit_simps not_less)
  qed
  then show ?thesis by (simp add: readLE32_def toLE32_def)
qed

lemma readBE16_toBE16: "readBE16 (toBE16 w @ r) = Some (w, r)"
proof -
  have "push_bit 8 (ucast (ucast (drop_bit 8 w) :: byte)) OR ucast (ucast w :: byte) = w"
  proof (rule bit_word_eqI)
    fix n assume "n < LENGTH(16)"
    then show "bit (push_bit 8 (ucast (ucast (drop_bit 8 w) :: byte)) OR
        ucast (ucast w :: byte) :: 16 word) n = bit w n"
      by (cases "n < 8") (auto simp add: bit_simps not_less)
  qed
  then show ?thesis by (simp add: readBE16_def toBE16_def)
qed

lemma ucast_bytes32:
  fixes b0 b1 b2 b3 :: byte
  defines "w \<equiv> (ucast b0 OR push_bit 8 (ucast b1) OR push_bit 16 (ucast b2)
                   OR push_bit 24 (ucast b3) :: 32 word)"
  shows "ucast w = b0" "ucast (drop_bit 8 w) = b1" "ucast (drop_bit 16 w) = b2"
        "ucast (drop_bit 24 w) = b3"
  unfolding w_def
  by (rule bit_word_eqI; simp add: bit_simps not_less; auto dest: bit_imp_le_length)+

lemma toLE32_readLE32:
  assumes "readLE32 buffer = Some (w, r)"
  shows "buffer = toLE32 w @ r"
proof -
  from assms obtain b0 b1 b2 b3 where
    b: "buffer = b0 # b1 # b2 # b3 # r" and
    w: "w = ucast b0 OR push_bit 8 (ucast b1) OR push_bit 16 (ucast b2) OR push_bit 24 (ucast b3)"
    unfolding readLE32_def by (auto split: list.splits)
  show ?thesis unfolding b w toLE32_def ucast_bytes32 by simp
qed

subsection \<open>The encoding loop, one packet at a time\<close>

lemma loop_empty: "createResponsePackets_loop c cmd acc s [] = acc"
  by (simp add: createResponsePackets_loop.simps)

lemma loop_step_init:
  assumes "p \<noteq> []" "s < 0"
  shows "createResponsePackets_loop c cmd acc s p =
         createResponsePackets_loop c cmd
           (acc @ [spec_initial_packet c cmd (of_nat (length p)) (take 57 p)]) (s + 1) (drop 57 p)"
proof -
  have "take (nat (if int (length p) < 57 then int (length p) else 57)) p = take 57 p"
       "drop (nat (if int (length p) < 57 then int (length p) else 57)) p = drop 57 p"
    by auto
  with assms show ?thesis
    by (subst createResponsePackets_loop.simps)
       (simp add: Let_def CTAPHIDSERVER_MAX_PACKET_SIZE_def newCTAPHIDMessageHeader_def
          flatten_def toLE32_def toLE8_def toBE16_def pad_def spec_initial_packet_def)
qed

lemma loop_step_cont:
  assumes "p \<noteq> []" "0 \<le> s"
  shows "createResponsePackets_loop c cmd acc s p =
         createResponsePackets_loop c cmd
           (acc @ [spec_continuation_packet c (of_int s) (take 59 p)]) (s + 1) (drop 59 p)"
proof -
  have "take (nat (if int (length p) < 59 then int (length p) else 59)) p = take 59 p"
       "drop (nat (if int (length p) < 59 then int (length p) else 59)) p = drop 59 p"
    by auto
  with assms show ?thesis
    by (subst createResponsePackets_loop.simps)
       (simp add: Let_def CTAPHIDSERVER_MAX_PACKET_SIZE_def
          toLE32_def pad_def spec_continuation_packet_def)
qed

lemma loop_acc:
  "createResponsePackets_loop c cmd acc s p = acc @ createResponsePackets_loop c cmd [] s p"
proof (induction "length p" arbitrary: p acc s rule: less_induct)
  case less
  show ?case
  proof (cases "p = []")
    case True
    then show ?thesis by (simp add: loop_empty)
  next
    case False
    then have sh: "length (drop 57 p) < length p" "length (drop 59 p) < length p" by simp_all
    show ?thesis
    proof (cases "s < 0")
      case True
      show ?thesis
        using less [OF sh(1),
                of "acc @ [spec_initial_packet c cmd (of_nat (length p)) (take 57 p)]" "s + 1"]
              less [OF sh(1),
                of "[spec_initial_packet c cmd (of_nat (length p)) (take 57 p)]" "s + 1"]
        by (simp add: loop_step_init [OF False True])
    next
      case nonneg: False
      then have s0: "0 \<le> s" by simp
      show ?thesis
        using less [OF sh(2),
                of "acc @ [spec_continuation_packet c (of_int s) (take 59 p)]" "s + 1"]
              less [OF sh(2),
                of "[spec_continuation_packet c (of_int s) (take 59 p)]" "s + 1"]
        by (simp add: loop_step_cont [OF False s0])
    qed
  qed
qed

lemma createResponsePackets_Nil: "createResponsePackets c cmd [] = []"
  by (simp add: createResponsePackets_def loop_empty)

lemma createResponsePackets_Cons:
  "p \<noteq> [] \<Longrightarrow> createResponsePackets c cmd p =
     spec_initial_packet c cmd (of_nat (length p)) (take 57 p) #
     createResponsePackets_loop c cmd [] 0 (drop 57 p)"
  unfolding createResponsePackets_def
  by (subst loop_step_init) (simp_all, subst loop_acc, simp)

lemma loop_cont_Cons:
  "p \<noteq> [] \<Longrightarrow> 0 \<le> s \<Longrightarrow> createResponsePackets_loop c cmd [] s p =
     spec_continuation_packet c (of_int s) (take 59 p) #
     createResponsePackets_loop c cmd [] (s + 1) (drop 59 p)"
  by (subst loop_step_cont) (simp_all, subst loop_acc, simp)

lemma length_spec_initial_packet:
  "length chunk \<le> 57 \<Longrightarrow> length (spec_initial_packet c cmd len chunk) = 64"
  by (simp add: spec_initial_packet_def toLE32_def toBE16_def)

lemma length_spec_continuation_packet:
  "length chunk \<le> 59 \<Longrightarrow> length (spec_continuation_packet c sq chunk) = 64"
  by (simp add: spec_continuation_packet_def toLE32_def)

lemma div59_step: "0 < n \<Longrightarrow> Suc ((n - 59 + 58) div 59) = (n + 58) div (59::nat)"
proof (cases "59 \<le> n")
  case True
  then have "n + 58 = (n - 59 + 58) + 59" by simp
  then have "(n + 58) div 59 = Suc ((n - 59 + 58) div 59)"
    by (simp only: div_add_self2)
  then show ?thesis by simp
next
  case False
  assume "0 < n"
  with False have "n - 59 = 0" "59 \<le> n + 58" "n + 58 < 2 * 59" by simp_all
  then have "(n + 58) div 59 = 1"
    by (intro div_nat_eqI) simp_all
  with \<open>n - 59 = 0\<close> show ?thesis by simp
qed

lemma length_loop_cont:
  "0 \<le> s \<Longrightarrow> length (createResponsePackets_loop c cmd [] s p) = (length p + 58) div 59"
proof (induction "length p" arbitrary: p s rule: less_induct)
  case less
  show ?case
  proof (cases "p = []")
    case True
    then show ?thesis by (simp add: loop_empty)
  next
    case False
    then have "length (drop 59 p) < length p" by simp
    from less(1) [OF this, of "s + 1"] less(2) False show ?thesis
      by (simp add: loop_cont_Cons div59_step)
  qed
qed

lemma loop_cont_nth:
  "0 \<le> s \<Longrightarrow> i < length (createResponsePackets_loop c cmd [] s p) \<Longrightarrow>
   createResponsePackets_loop c cmd [] s p ! i =
     spec_continuation_packet c (of_int (s + int i)) (take 59 (drop (59 * i) p))"
proof (induction i arbitrary: s p)
  case 0
  then have "p \<noteq> []" by (auto simp: loop_empty)
  with 0 show ?case by (simp add: loop_cont_Cons)
next
  case (Suc i)
  then have ne: "p \<noteq> []" by (auto simp: loop_empty)
  with Suc.prems have "i < length (createResponsePackets_loop c cmd [] (s + 1) (drop 59 p))"
    by (simp add: loop_cont_Cons)
  from Suc.IH [OF _ this] Suc.prems(1) ne show ?case
    by (simp add: loop_cont_Cons add.commute add.left_commute)
qed

lemma length_createResponsePackets:
  "length (createResponsePackets c cmd p) =
     (if p = [] then 0 else 1 + (length p - 57 + 58) div 59)"
  by (simp add: createResponsePackets_Nil createResponsePackets_Cons length_loop_cont)

subsection \<open>Packet layout\<close>

text \<open>Claim C6. Every packet that \<open>createResponsePackets\<close> emits is exactly 64 bytes long
  and has the layout of the spec: packet 0 is the initial packet (channel id in 4 bytes
  little-endian, the command byte, the payload length in 2 bytes big-endian, the first 57
  payload bytes, zero padding); packet \<open>i > 0\<close> is a continuation packet (channel id,
  the sequence number \<open>i - 1\<close> in one byte, the next 59 payload bytes, zero padding). The
  length and the sequence number are the source's conversions to 16 and 8 bits.\<close>

theorem createResponsePackets_layout:
  assumes "i < length (createResponsePackets c cmd p)"
  shows "length (createResponsePackets c cmd p ! i) = 64 \<and>
         createResponsePackets c cmd p ! i =
           (if i = 0 then spec_initial_packet c cmd (of_nat (length p)) (take 57 p)
            else spec_continuation_packet c (of_nat (i - 1))
                   (take 59 (drop (57 + 59 * (i - 1)) p)))"
proof -
  from assms have ne: "p \<noteq> []" by (auto simp: createResponsePackets_Nil)
  show ?thesis
  proof (cases i)
    case 0
    with ne show ?thesis
      by (simp add: createResponsePackets_Cons length_spec_initial_packet)
  next
    case (Suc j)
    with assms ne have j: "j < length (createResponsePackets_loop c cmd [] 0 (drop 57 p))"
      by (simp add: createResponsePackets_Cons)
    from loop_cont_nth [OF _ j] Suc ne show ?thesis
      by (simp add: createResponsePackets_Cons length_spec_continuation_packet add.commute)
  qed
qed

theorem createResponsePackets_layout_witness:
  "(1::nat) < length (createResponsePackets 1 CTAPHID_COMMAND_PING (replicate 58 7)) \<and>
   length (createResponsePackets 1 CTAPHID_COMMAND_PING (replicate 58 7) ! 1) = 64 \<and>
   createResponsePackets 1 CTAPHID_COMMAND_PING (replicate 58 7) ! 1 =
     spec_continuation_packet 1 0 [7]"
proof -
  have h: "(1::nat) < length (createResponsePackets 1 CTAPHID_COMMAND_PING (replicate 58 7))"
    by (simp add: length_createResponsePackets)
  note layout = createResponsePackets_layout [OF h]
  have "createResponsePackets 1 CTAPHID_COMMAND_PING (replicate 58 7) ! 1 =
          spec_continuation_packet 1 0 [7]"
    using layout [THEN conjunct2] by simp
  with h layout [THEN conjunct1] show ?thesis
    by (intro conjI)
qed

subsection \<open>Empty payloads\<close>

text \<open>Claim C7, as amended. \<open>createResponsePackets\<close> has no notion of a message that needs
  a response: it emits no packet for an empty payload, whatever the command, and at least
  one packet for every other payload.\<close>

theorem createResponsePackets_empty_iff:
  "(createResponsePackets c cmd p = []) = (p = [])"
  by (cases "p = []") (simp_all add: createResponsePackets_Nil createResponsePackets_Cons)

text \<open>Claim C7 fails as stated: a PING with an empty payload on a data channel is a message
  that is to be echoed, and the dispatcher answers it with no packet at all.\<close>

theorem empty_ping_counterexample:
  "handleDataMessage (newCTAPHIDServer (\<lambda>x. []) (\<lambda>x. []))
     \<lparr>ChannelID = 1, Command = CTAPHID_COMMAND_PING, PayloadLength = 0\<rparr> (new_slice [])
   = Inr (newCTAPHIDServer (\<lambda>x. []) (\<lambda>x. []), [])"
  by (simp add: handleDataMessage_def new_slice_def createResponsePackets_Nil
        CTAPHID_COMMAND_PING_def CTAPHID_COMMAND_MSG_def CTAPHID_COMMAND_CBOR_def)

subsection \<open>Reports for an unknown channel\<close>

lemma toBE16_1: "toBE16 1 = [0, 1]"
  by (simp add: toBE16_def)

lemma ctapHidError_packet:
  "ctapHidError c err = [toLE32 c @ [CTAPHID_COMMAND_ERROR, 0, 1, err] @ replicate 56 0]"
  by (simp add: ctapHidError_def createResponsePackets_Cons loop_empty spec_initial_packet_def
        toBE16_1)

text \<open>Claim C2. A report that starts with the four bytes of a channel id \<open>c\<close> which is
  not in the channel table makes \<open>handleMessage\<close> return normally, with exactly one packet
  added to the responses: the 64-byte ERROR packet that has the same four bytes of channel
  id in its header, payload length 1 and the error code \<open>CTAPHID_ERR_INVALID_CHANNEL\<close>.
  The channel table and every other field of the server are unchanged, so later reports
  are handled as before.\<close>

theorem handleMessage_unknown_channel:
  assumes "readLE32 (elems message) = Some (c, rest)"
    and "channels server c = None"
  shows "handleMessage grow server message =
           Inr (server\<lparr>responses := responses server @
                  [toLE32 c @ [CTAPHID_COMMAND_ERROR, 0, 1, CTAPHID_ERR_INVALID_CHANNEL]
                     @ replicate 56 0]\<rparr>) \<and>
         toLE32 c = take 4 (elems message)"
proof -
  from toLE32_readLE32 [OF assms(1)] have "take 4 (elems message) = toLE32 c"
    by (simp add: toLE32_def)
  with assms show ?thesis
    by (simp add: handleMessage_def sendResponse_def ctapHidError_packet)
qed


theorem handleMessage_unknown_channel_witness:
  "readLE32 (elems (new_slice (5 # 0 # 0 # 0 # replicate 60 0))) = Some (5, replicate 60 0) \<and>
   channels (newCTAPHIDServer (\<lambda>x. []) (\<lambda>x. [])) 5 = None \<and>
   handleMessage (\<lambda>a b. 0) (newCTAPHIDServer (\<lambda>x. []) (\<lambda>x. []))
       (new_slice (5 # 0 # 0 # 0 # replicate 60 0)) =
     Inr ((newCTAPHIDServer (\<lambda>x. []) (\<lambda>x. []))\<lparr>responses :=
            [[5, 0, 0, 0, 0xBF, 0, 1, 0x0B] @ replicate 56 0]\<rparr>)"
proof -
  have r: "readLE32 (elems (new_slice (5 # 0 # 0 # 0 # replicate 60 0))) = Some (5, replicate 60 0)"
    by (simp add: readLE32_def new_slice_def)
  have c: "channels (newCTAPHIDServer (\<lambda>x. []) (\<lambda>x. [])) 5 = None"
    by (simp add: newCTAPHIDServer_def CTAPHID_BROADCAST_CHANNEL_def)
  have t: "toLE32 5 = [5, 0, 0, 0]"
    by (simp add: toLE32_def)
  from handleMessage_unknown_channel [OF r c, of "\<lambda>a b. 0"] r c show ?thesis
    by (simp add: t CTAPHID_COMMAND_ERROR_def CTAPHID_ERR_INVALID_CHANNEL_def
          newCTAPHIDServer_def)
qed


subsection \<open>Commands the dispatcher does not support\<close>

lemma commands_distinct:
  "CTAPHID_COMMAND_MSG \<noteq> CTAPHID_COMMAND_CBOR" "CTAPHID_COMMAND_MSG \<noteq> CTAPHID_COMMAND_INIT"
  "CTAPHID_COMMAND_MSG \<noteq> CTAPHID_COMMAND_PING" "CTAPHID_COMMAND_CBOR \<noteq> CTAPHID_COMMAND_INIT"
  "CTAPHID_COMMAND_CBOR \<noteq> CTAPHID_COMMAND_PING" "CTAPHID_COMMAND_INIT \<noteq> CTAPHID_COMMAND_PING"
  by (simp_all add: CTAPHID_COMMAND_MSG_def CTAPHID_COMMAND_CBOR_def CTAPHID_COMMAND_INIT_def
        CTAPHID_COMMAND_PING_def)

text \<open>Claim C1, as amended. For every finalized message whose command is not one of the
  commands supported on its kind of channel, the dispatcher panics: it returns no packet,
  and the panic names the header (\<open>InvalidBroadcastCommand\<close> on the broadcast channel,
  \<open>InvalidChannelCommand\<close> on a data channel). No ERROR packet is produced.\<close>

theorem unsupported_command_panics:
  assumes "Command header \<notin> supported_commands (channelId channel)"
  shows "handleFinalizedMessage server channel header payload =
           Inl (if channelId channel = CTAPHID_BROADCAST_CHANNEL
                then InvalidBroadcastCommand header else InvalidChannelCommand header)"
proof (cases "channelId channel = CTAPHID_BROADCAST_CHANNEL")
  case True
  with assms show ?thesis
    by (simp add: handleFinalizedMessage_def handleBroadcastMessage_def supported_commands_def)
next
  case False
  with assms show ?thesis
    by (simp add: handleFinalizedMessage_def handleDataMessage_def supported_commands_def)
qed

theorem unsupported_command_panics_witness:
  "Command \<lparr>ChannelID = 1, Command = 0x88, PayloadLength = 0\<rparr>
     \<notin> supported_commands (channelId (NewCTAPHIDChannel 1)) \<and>
   handleFinalizedMessage (newCTAPHIDServer (\<lambda>x. []) (\<lambda>x. [])) (NewCTAPHIDChannel 1)
       \<lparr>ChannelID = 1, Command = 0x88, PayloadLength = 0\<rparr> (new_slice []) =
     Inl (InvalidChannelCommand \<lparr>ChannelID = 1, Command = 0x88, PayloadLength = 0\<rparr>)"
proof -
  have h: "Command \<lparr>ChannelID = 1, Command = 0x88, PayloadLength = 0\<rparr>
             \<notin> supported_commands (channelId (NewCTAPHIDChannel 1))"
    by (simp add: supported_commands_def NewCTAPHIDChannel_def CTAPHID_BROADCAST_CHANNEL_def
          CTAPHID_COMMAND_MSG_def CTAPHID_COMMAND_CBOR_def CTAPHID_COMMAND_PING_def)
  from unsupported_command_panics [OF h] h show ?thesis
    by (simp add: NewCTAPHIDChannel_def CTAPHID_BROADCAST_CHANNEL_def)
qed

text \<open>Claim C1 fails as stated: a report on the broadcast channel with the command MSG
  (0x83) makes \<open>handleMessage\<close> end in the panic, and nothing in the file recovers from
  it.\<close>

theorem unsupported_broadcast_command_counterexample:
  "handleMessage (\<lambda>a b. 0) (newCTAPHIDServer (\<lambda>x. []) (\<lambda>x. []))
       (new_slice ([0xFF, 0xFF, 0xFF, 0xFF, 0x83, 0, 0] @ replicate 57 0)) =
     Inl (InvalidBroadcastCommand
            \<lparr>ChannelID = 0xFFFFFFFF, Command = 0x83, PayloadLength = 0\<rparr>)"
proof -
  have r: "readLE32 (0xFF # 0xFF # 0xFF # 0xFF # 0x83 # 0 # 0 # replicate 57 0) =
             Some (0xFFFFFFFF, 0x83 # 0 # 0 # replicate 57 0)"
    by (simp add: readLE32_def)
  show ?thesis
    by (simp add: handleMessage_def r new_slice_def newCTAPHIDServer_def
          CTAPHID_BROADCAST_CHANNEL_def channel_handleMessage_def channel_framing_def
          NewCTAPHIDChannel_def readLE8_def readBE16_def slice_from_def slice_to_def
          sizeOf_CTAPHIDChannelID_def sizeOf_CTAPHIDCommand_def sizeOf_uint16_def
          handleFinalizedMessage_def handleBroadcastMessage_def
          CTAPHID_COMMAND_INIT_def CTAPHID_COMMAND_PING_def)
qed

subsection \<open>Channel allocation by INIT\<close>

lemma toBE16_17: "toBE16 17 = [0, 17]"
  by (simp add: toBE16_def)

lemma init_response_packets:
  assumes "length nonce = 8"
  shows "createResponsePackets CTAPHID_BROADCAST_CHANNEL CTAPHID_COMMAND_INIT
           (toLE_CTAPHIDInitReponse
              \<lparr>Nonce = nonce, NewChannelID = c, ProtocolVersion = 2, DeviceVersionMajor = 0,
               DeviceVersionMinor = 0, DeviceVersionBuild = 1, CapabilitiesFlags = 0\<rparr>) =
         [toLE32 CTAPHID_BROADCAST_CHANNEL @ [CTAPHID_COMMAND_INIT, 0, 17] @
          nonce @ toLE32 c @ [2, 0, 0, 1, 0] @ replicate 40 0]"
  using assms
  by (simp add: createResponsePackets_Cons loop_empty spec_initial_packet_def
        toLE_CTAPHIDInitReponse_def toBE16_17 toLE32_def)

lemma copy_bytes_same_length: "length src = length dst \<Longrightarrow> copy_bytes dst src = src"
  by (simp add: copy_bytes_def)

lemma handleBroadcastMessage_INIT:
  assumes "Command header = CTAPHID_COMMAND_INIT"
  shows "handleBroadcastMessage server header payload =
     (if length (elems payload) + length (spare payload) < 8 then Inl SliceBoundsOutOfRange
      else Inr (server\<lparr>maxChannelID := maxChannelID server + 1,
                        channels := (channels server)
                          (maxChannelID server + 1 \<mapsto> NewCTAPHIDChannel (maxChannelID server + 1))\<rparr>,
                [toLE32 CTAPHID_BROADCAST_CHANNEL @ [CTAPHID_COMMAND_INIT, 0, 17] @
                 take 8 (elems payload @ spare payload) @ toLE32 (maxChannelID server + 1) @
                 [2, 0, 0, 1, 0] @ replicate 40 0]))"
proof (cases "length (elems payload) + length (spare payload) < 8")
  case True
  with assms show ?thesis
    by (simp add: handleBroadcastMessage_def slice_to_def)
next
  case False
  then have n: "length (take 8 (elems payload @ spare payload)) = 8" by simp
  have c: "copy_bytes (replicate 8 0) (take 8 (elems payload @ spare payload)) =
           take 8 (elems payload @ spare payload)"
    using n by (intro copy_bytes_same_length) simp
  from False assms show ?thesis
    by (simp add: handleBroadcastMessage_def slice_to_def Let_def c
          init_response_packets [OF n] del: take_append)
qed

text \<open>Claim C5. An INIT command finalized on the broadcast channel, whose payload has the
  8 bytes of a nonce within its capacity, sets \<open>maxChannelID\<close> to its successor (in 32
  bits) and stores under that id in the channel table a fresh channel: one that has this
  id as its \<open>channelId\<close> and no message in progress. It returns one INIT packet on the
  broadcast channel whose 17-byte payload is the nonce unchanged (the first 8 payload
  bytes; were the payload shorter, the bytes that follow it in its backing array complete
  them), the new channel id, the protocol version 2, the device version 0, 0, 1 and the
  capability flags 0. On a new server the id allocated is 1.\<close>

theorem broadcast_INIT_allocates:
  assumes "channelId channel = CTAPHID_BROADCAST_CHANNEL"
    and "Command header = CTAPHID_COMMAND_INIT"
    and "8 \<le> length (elems payload) + length (spare payload)"
  shows "handleFinalizedMessage server channel header payload =
           Inr (server\<lparr>maxChannelID := maxChannelID server + 1,
                       channels := (channels server)
                         (maxChannelID server + 1 \<mapsto>
                            \<lparr>channelId = maxChannelID server + 1,
                             inProgressHeader = None,
                             inProgressPayload = None\<rparr>)\<rparr>,
                [toLE32 CTAPHID_BROADCAST_CHANNEL @ [CTAPHID_COMMAND_INIT, 0, 17] @
                 (take 8 (elems payload) @ take (8 - length (elems payload)) (spare payload)) @
                 toLE32 (maxChannelID server + 1) @
                 [2, 0, 0, 1, 0] @ replicate 40 0]) \<and>
         maxChannelID (newCTAPHIDServer ctap u2f) + 1 = 1"
proof -
  from assms(3) have cap: "\<not> length (elems payload) + length (spare payload) < 8"
    by simp
  have nonce: "take 8 (elems payload @ spare payload) =
               take 8 (elems payload) @ take (8 - length (elems payload)) (spare payload)"
    by simp
  have "handleFinalizedMessage server channel header payload =
          handleBroadcastMessage server header payload"
    by (simp add: handleFinalizedMessage_def assms(1))
  also have "\<dots> =
      Inr (server\<lparr>maxChannelID := maxChannelID server + 1,
                  channels := (channels server)
                    (maxChannelID server + 1 \<mapsto> NewCTAPHIDChannel (maxChannelID server + 1))\<rparr>,
           [toLE32 CTAPHID_BROADCAST_CHANNEL @ [CTAPHID_COMMAND_INIT, 0, 17] @
            take 8 (elems payload @ spare payload) @ toLE32 (maxChannelID server + 1) @
            [2, 0, 0, 1, 0] @ replicate 40 0])"
    unfolding handleBroadcastMessage_INIT [OF assms(2)] using cap by (simp only: if_False)
  finally show ?thesis
    unfolding nonce NewCTAPHIDChannel_def by (simp add: newCTAPHIDServer_def)
qed

theorem broadcast_INIT_allocates_witness:
  "channelId (NewCTAPHIDChannel CTAPHID_BROADCAST_CHANNEL) = CTAPHID_BROADCAST_CHANNEL \<and>
   Command \<lparr>ChannelID = CTAPHID_BROADCAST_CHANNEL, Command = CTAPHID_COMMAND_INIT,
            PayloadLength = 8\<rparr> = CTAPHID_COMMAND_INIT \<and>
   8 \<le> length (elems (new_slice [1, 2, 3, 4, 5, 6, 7, 8])) +
         length (spare (new_slice [1, 2, 3, 4, 5, 6, 7, 8])) \<and>
   handleFinalizedMessage (newCTAPHIDServer (\<lambda>x. []) (\<lambda>x. []))
       (NewCTAPHIDChannel CTAPHID_BROADCAST_CHANNEL)
       \<lparr>ChannelID = CTAPHID_BROADCAST_CHANNEL, Command = CTAPHID_COMMAND_INIT,
        PayloadLength = 8\<rparr>
       (new_slice [1, 2, 3, 4, 5, 6, 7, 8]) =
     Inr ((newCTAPHIDServer (\<lambda>x. []) (\<lambda>x. []))
            \<lparr>maxChannelID := 1,
             channels := (channels (newCTAPHIDServer (\<lambda>x. []) (\<lambda>x. [])))
                           (1 \<mapsto> \<lparr>channelId = 1, inProgressHeader = None,
                                 inProgressPayload = None\<rparr>)\<rparr>,
          [[0xFF, 0xFF, 0xFF, 0xFF, 0x86, 0, 17, 1, 2, 3, 4, 5, 6, 7, 8, 1, 0, 0, 0,
            2, 0, 0, 1, 0] @ replicate 40 0])"
proof -
  have h1: "channelId (NewCTAPHIDChannel CTAPHID_BROADCAST_CHANNEL) = CTAPHID_BROADCAST_CHANNEL"
    by (simp add: NewCTAPHIDChannel_def)
  have h2: "Command \<lparr>ChannelID = CTAPHID_BROADCAST_CHANNEL, Command = CTAPHID_COMMAND_INIT,
              PayloadLength = 8\<rparr> = CTAPHID_COMMAND_INIT"
    by simp
  have h3: "8 \<le> length (elems (new_slice [1, 2, 3, 4, 5, 6, 7, 8])) +
                 length (spare (new_slice [1, 2, 3, 4, 5, 6, 7, 8]))"
    by (simp add: new_slice_def)
  have m: "maxChannelID (newCTAPHIDServer (\<lambda>x. []) (\<lambda>x. [])) + 1 = 1"
    by (simp add: newCTAPHIDServer_def)
  have t: "toLE32 CTAPHID_BROADCAST_CHANNEL = [0xFF, 0xFF, 0xFF, 0xFF]" "toLE32 1 = [1, 0, 0, 0]"
    by (simp_all add: toLE32_def CTAPHID_BROADCAST_CHANNEL_def)
  have e: "take 8 (elems (new_slice [1, 2, 3, 4, 5, 6, 7, 8])) @
           take (8 - length (elems (new_slice [1, 2, 3, 4, 5, 6, 7, 8])))
             (spare (new_slice [1, 2, 3, 4, 5, 6, 7, 8])) = [1, 2, 3, 4, 5, 6, 7, 8]"
    by (simp add: new_slice_def)
  from broadcast_INIT_allocates [OF h1 h2 h3, of "newCTAPHIDServer (\<lambda>x. []) (\<lambda>x. [])"]
  have "handleFinalizedMessage (newCTAPHIDServer (\<lambda>x. []) (\<lambda>x. []))
       (NewCTAPHIDChannel CTAPHID_BROADCAST_CHANNEL)
       \<lparr>ChannelID = CTAPHID_BROADCAST_CHANNEL, Command = CTAPHID_COMMAND_INIT,
        PayloadLength = 8\<rparr>
       (new_slice [1, 2, 3, 4, 5, 6, 7, 8]) =
     Inr ((newCTAPHIDServer (\<lambda>x. []) (\<lambda>x. []))
            \<lparr>maxChannelID := 1,
             channels := (channels (newCTAPHIDServer (\<lambda>x. []) (\<lambda>x. [])))
                           (1 \<mapsto> \<lparr>channelId = 1, inProgressHeader = None,
                                 inProgressPayload = None\<rparr>)\<rparr>,
          [[0xFF, 0xFF, 0xFF, 0xFF, 0x86, 0, 17, 1, 2, 3, 4, 5, 6, 7, 8, 1, 0, 0, 0,
            2, 0, 0, 1, 0] @ replicate 40 0])"
    unfolding m t e by (simp add: CTAPHID_COMMAND_INIT_def)
  with h1 h2 h3 show ?thesis by (intro conjI)
qed

subsection \<open>The framing state machine, case by case\<close>

lemma unat_of_nat16_le: "unat (of_nat n :: 16 word) \<le> n"
  by (simp add: unat_of_nat)

lemma read_header:
  assumes "bs = toLE32 c @ [cmd] @ toBE16 len @ body"
  shows "readLE32 bs = Some (c, cmd # toBE16 len @ body)"
    and "readLE8 (cmd # toBE16 len @ body) = Some (cmd, toBE16 len @ body)"
    and "readBE16 (toBE16 len @ body) = Some (len, body)"
    and "length bs = 7 + length body"
    and "drop 7 bs = body"
proof -
  from readLE32_toLE32 [of c "cmd # toBE16 len @ body"]
  show "readLE32 bs = Some (c, cmd # toBE16 len @ body)"
    unfolding assms by simp
  show "readLE8 (cmd # toBE16 len @ body) = Some (cmd, toBE16 len @ body)"
    by (simp add: readLE8_def)
  show "readBE16 (toBE16 len @ body) = Some (len, body)"
    by (rule readBE16_toBE16)
  show "length bs = 7 + length body" "drop 7 bs = body"
    unfolding assms by (simp_all add: toLE32_def toBE16_def)
qed

lemma channel_framing_initial_complete:
  assumes "inProgressPayload channel = None"
    and "elems message = toLE32 c @ [cmd] @ toBE16 len @ body"
    and "len \<le> of_nat (length body)"
  shows "channel_framing grow channel message =
           Inr (Finalized channel
                  \<lparr>ChannelID = channelId channel, Command = cmd, PayloadLength = len\<rparr>
                  \<lparr>elems = take (unat len) body,
                   spare = drop (unat len) body @ spare message\<rparr>)"
proof -
  note h = read_header [OF assms(2)]
  from assms(3) have "unat len \<le> unat (of_nat (length body) :: 16 word)"
    by (simp add: word_le_nat_alt)
  with unat_of_nat16_le [of "length body"] have le: "unat len \<le> length body" by simp
  then have le2: "unat len \<le> length body + length (spare message)" by simp
  from assms(3) have nl: "\<not> of_nat (length body) < len" by simp
  show ?thesis
    unfolding channel_framing_def
    by (simp add: assms(1) h slice_from_def slice_to_def nl le le2
          sizeOf_CTAPHIDChannelID_def sizeOf_CTAPHIDCommand_def sizeOf_uint16_def)
qed

lemma channel_framing_initial_incomplete:
  assumes "inProgressPayload channel = None"
    and "elems message = toLE32 c @ [cmd] @ toBE16 len @ body"
    and "of_nat (length body) < len"
  shows "channel_framing grow channel message =
           Inr (NeedFollowup
                  (channel\<lparr>inProgressHeader :=
                             Some \<lparr>ChannelID = channelId channel, Command = cmd,
                                   PayloadLength = len\<rparr>,
                           inProgressPayload :=
                             Some \<lparr>elems = body, spare = spare message\<rparr>\<rparr>))"
proof -
  note h = read_header [OF assms(2)]
  show ?thesis
    unfolding channel_framing_def
    by (simp add: assms(1) assms(3) h slice_from_def
          sizeOf_CTAPHIDChannelID_def sizeOf_CTAPHIDCommand_def sizeOf_uint16_def)
qed

lemma channel_framing_continuation:
  assumes "inProgressPayload channel = Some inProgress"
    and "inProgressHeader channel = Some header"
    and "elems message = toLE32 c @ [sq] @ body"
  shows "channel_framing grow channel message =
           (if int (unat (PayloadLength header)) - int (length (elems inProgress))
                 > int (length body)
            then Inr (NeedFollowup
                   (channel\<lparr>inProgressPayload := Some (append_slice grow inProgress body)\<rparr>))
            else Inr (Finalized
                   (channel\<lparr>inProgressHeader := None, inProgressPayload := None\<rparr>)
                   header (append_slice grow inProgress body)))"
  unfolding channel_framing_def
  by (simp add: assms slice_from_def sizeOf_CTAPHIDChannelID_def toLE32_def Let_def)

subsection \<open>INIT with a declared payload of fewer than 8 bytes\<close>

text \<open>Claim C10, as amended. \<^verbatim>\<open>payload[:8]\<close> is a slice expression on a slice, so its bound
  is the capacity of the payload, not its length. For an initial INIT packet on the idle
  broadcast channel that is complete in one report (header \<open>toLE32 c\<close>, INIT, \<open>toBE16 len\<close>,
  then \<open>body\<close>), the payload's capacity is all that follows the 7-byte header in the
  report's backing array. Whatever \<open>len\<close> declares, the access panics exactly when fewer
  than 8 bytes follow the header there; otherwise a channel is allocated and the nonce
  echoed is the 8 bytes after the header.\<close>

theorem broadcast_INIT_nonce_within_capacity:
  assumes "channelId channel = CTAPHID_BROADCAST_CHANNEL"
    and "inProgressPayload channel = None"
    and "elems message = toLE32 c @ [CTAPHID_COMMAND_INIT] @ toBE16 len @ body"
    and "len \<le> of_nat (length body)"
  shows "channel_handleMessage grow server key channel message =
           (if length body + length (spare message) < 8 then Inl SliceBoundsOutOfRange
            else Inr (server\<lparr>maxChannelID := maxChannelID server + 1,
                              channels := (channels server)
                                (key \<mapsto> channel,
                                 maxChannelID server + 1 \<mapsto>
                                   NewCTAPHIDChannel (maxChannelID server + 1))\<rparr>,
                      Some [toLE32 CTAPHID_BROADCAST_CHANNEL @ [CTAPHID_COMMAND_INIT, 0, 17] @
                            take 8 (body @ spare message) @
                            toLE32 (maxChannelID server + 1) @
                            [2, 0, 0, 1, 0] @ replicate 40 0]))"
proof -
  define header where
    "header = \<lparr>ChannelID = channelId channel, Command = CTAPHID_COMMAND_INIT,
               PayloadLength = len\<rparr>"
  define finalPayload where
    "finalPayload = \<lparr>elems = take (unat len) body,
                     spare = drop (unat len) body @ spare message\<rparr>"
  have cap: "length (elems finalPayload) + length (spare finalPayload) =
             length body + length (spare message)"
    and bytes: "elems finalPayload @ spare finalPayload = body @ spare message"
    by (simp_all add: finalPayload_def)
  have framing: "channel_framing grow channel message =
                   Inr (Finalized channel header finalPayload)"
    unfolding header_def finalPayload_def
    by (rule channel_framing_initial_complete [OF assms(2-4)])
  have cmd: "Command header = CTAPHID_COMMAND_INIT"
    by (simp add: header_def)
  show ?thesis
    unfolding channel_handleMessage_def framing
    by (simp add: handleFinalizedMessage_def assms(1) handleBroadcastMessage_INIT [OF cmd]
          cap bytes)
qed

theorem broadcast_INIT_nonce_within_capacity_witness:
  "channelId (NewCTAPHIDChannel CTAPHID_BROADCAST_CHANNEL) = CTAPHID_BROADCAST_CHANNEL \<and>
   inProgressPayload (NewCTAPHIDChannel CTAPHID_BROADCAST_CHANNEL) = None \<and>
   elems (new_slice (toLE32 CTAPHID_BROADCAST_CHANNEL @ [CTAPHID_COMMAND_INIT] @ toBE16 3 @
            [1, 2, 3, 4, 5, 6, 7, 8, 9])) =
     toLE32 CTAPHID_BROADCAST_CHANNEL @ [CTAPHID_COMMAND_INIT] @ toBE16 3 @
       [1, 2, 3, 4, 5, 6, 7, 8, 9] \<and>
   (3 :: 16 word) \<le> of_nat (length [1, 2, 3, 4, 5, 6, 7, 8, 9 :: byte]) \<and>
   channel_handleMessage (\<lambda>a b. 0) (newCTAPHIDServer (\<lambda>x. []) (\<lambda>x. []))
       CTAPHID_BROADCAST_CHANNEL (NewCTAPHIDChannel CTAPHID_BROADCAST_CHANNEL)
       (new_slice (toLE32 CTAPHID_BROADCAST_CHANNEL @ [CTAPHID_COMMAND_INIT] @ toBE16 3 @
            [1, 2, 3, 4, 5, 6, 7, 8, 9])) =
     Inr ((newCTAPHIDServer (\<lambda>x. []) (\<lambda>x. []))
            \<lparr>maxChannelID := 1,
             channels := (channels (newCTAPHIDServer (\<lambda>x. []) (\<lambda>x. [])))
                           (1 \<mapsto> NewCTAPHIDChannel 1)\<rparr>,
          Some [[0xFF, 0xFF, 0xFF, 0xFF, 0x86, 0, 17, 1, 2, 3, 4, 5, 6, 7, 8, 1, 0, 0, 0,
                 2, 0, 0, 1, 0] @ replicate 40 0])"
proof -
  have h1: "channelId (NewCTAPHIDChannel CTAPHID_BROADCAST_CHANNEL) = CTAPHID_BROADCAST_CHANNEL"
    and h2: "inProgressPayload (NewCTAPHIDChannel CTAPHID_BROADCAST_CHANNEL) = None"
    by (simp_all add: NewCTAPHIDChannel_def)
  have h3: "elems (new_slice (toLE32 CTAPHID_BROADCAST_CHANNEL @ [CTAPHID_COMMAND_INIT] @
              toBE16 3 @ [1, 2, 3, 4, 5, 6, 7, 8, 9])) =
            toLE32 CTAPHID_BROADCAST_CHANNEL @ [CTAPHID_COMMAND_INIT] @ toBE16 3 @
              [1, 2, 3, 4, 5, 6, 7, 8, 9]"
    by (simp add: new_slice_def)
  have h4: "(3 :: 16 word) \<le> of_nat (length [1, 2, 3, 4, 5, 6, 7, 8, 9 :: byte])"
    by simp
  have m: "maxChannelID (newCTAPHIDServer (\<lambda>x. []) (\<lambda>x. [])) + 1 = 1"
    by (simp add: newCTAPHIDServer_def)
  have t: "toLE32 CTAPHID_BROADCAST_CHANNEL = [0xFF, 0xFF, 0xFF, 0xFF]" "toLE32 1 = [1, 0, 0, 0]"
    by (simp_all add: toLE32_def CTAPHID_BROADCAST_CHANNEL_def)
  have k: "(channels (newCTAPHIDServer (\<lambda>x. []) (\<lambda>x. [])))
             (CTAPHID_BROADCAST_CHANNEL \<mapsto> NewCTAPHIDChannel CTAPHID_BROADCAST_CHANNEL) =
           channels (newCTAPHIDServer (\<lambda>x. []) (\<lambda>x. []))"
    by (simp add: newCTAPHIDServer_def)
  have s: "spare (new_slice (toLE32 CTAPHID_BROADCAST_CHANNEL @ [CTAPHID_COMMAND_INIT] @
              toBE16 3 @ [1, 2, 3, 4, 5, 6, 7, 8, 9])) = []"
    by (simp add: new_slice_def)
  from broadcast_INIT_nonce_within_capacity [OF h1 h2 h3 h4, of "\<lambda>a b. 0"
         "newCTAPHIDServer (\<lambda>x. []) (\<lambda>x. [])" CTAPHID_BROADCAST_CHANNEL]
  have "channel_handleMessage (\<lambda>a b. 0) (newCTAPHIDServer (\<lambda>x. []) (\<lambda>x. []))
       CTAPHID_BROADCAST_CHANNEL (NewCTAPHIDChannel CTAPHID_BROADCAST_CHANNEL)
       (new_slice (toLE32 CTAPHID_BROADCAST_CHANNEL @ [CTAPHID_COMMAND_INIT] @ toBE16 3 @
            [1, 2, 3, 4, 5, 6, 7, 8, 9])) =
     Inr ((newCTAPHIDServer (\<lambda>x. []) (\<lambda>x. []))
            \<lparr>maxChannelID := 1,
             channels := (channels (newCTAPHIDServer (\<lambda>x. []) (\<lambda>x. [])))
                           (1 \<mapsto> NewCTAPHIDChannel 1)\<rparr>,
          Some [[0xFF, 0xFF, 0xFF, 0xFF, 0x86, 0, 17, 1, 2, 3, 4, 5, 6, 7, 8, 1, 0, 0, 0,
                 2, 0, 0, 1, 0] @ replicate 40 0])"
    unfolding m s k by (simp add: t(2) CTAPHID_COMMAND_INIT_def, simp add: t(1))
  with h1 h2 h3 h4 show ?thesis by (intro conjI)
qed

text \<open>Claim C10 fails as stated: a 64-byte INIT report on the broadcast channel that
  declares a payload length of 3 does not panic. Channel 1 is allocated and the response
  echoes the 8 bytes that follow the header.\<close>

theorem short_INIT_counterexample:
  "handleMessage (\<lambda>a b. 0) (newCTAPHIDServer (\<lambda>x. []) (\<lambda>x. []))
       (new_slice ([0xFF, 0xFF, 0xFF, 0xFF, 0x86, 0, 3, 1, 2, 3, 4, 5, 6, 7, 8] @
                   replicate 49 0)) =
     Inr ((newCTAPHIDServer (\<lambda>x. []) (\<lambda>x. []))
            \<lparr>maxChannelID := 1,
             channels := (channels (newCTAPHIDServer (\<lambda>x. []) (\<lambda>x. [])))
                           (1 \<mapsto> NewCTAPHIDChannel 1),
             responses := [[0xFF, 0xFF, 0xFF, 0xFF, 0x86, 0, 17, 1, 2, 3, 4, 5, 6, 7, 8,
                            1, 0, 0, 0, 2, 0, 0, 1, 0] @ replicate 40 0]\<rparr>)"
proof -
  have r: "readLE32 (0xFF # 0xFF # 0xFF # 0xFF # 0x86 # 0 # 3 # 1 # 2 # 3 # 4 # 5 # 6 # 7 # 8 #
                     replicate 49 0) =
             Some (0xFFFFFFFF, 0x86 # 0 # 3 # 1 # 2 # 3 # 4 # 5 # 6 # 7 # 8 # replicate 49 0)"
    by (simp add: readLE32_def)
  have t: "toLE32 0xFFFFFFFF = [0xFF, 0xFF, 0xFF, 0xFF]" "toLE32 1 = [1, 0, 0, 0]"
    by (simp_all add: toLE32_def)
  show ?thesis
    by (simp add: handleMessage_def r new_slice_def newCTAPHIDServer_def
          CTAPHID_BROADCAST_CHANNEL_def channel_handleMessage_def channel_framing_def
          NewCTAPHIDChannel_def readLE8_def readBE16_def slice_from_def slice_to_def
          sizeOf_CTAPHIDChannelID_def sizeOf_CTAPHIDCommand_def sizeOf_uint16_def
          handleFinalizedMessage_def handleBroadcastMessage_INIT sendResponse_def t
          CTAPHID_COMMAND_INIT_def)
qed

subsection \<open>Encoding, then reassembly\<close>

lemma elems_append_slice: "elems (append_slice grow s xs) = elems s @ xs"
  by (simp add: append_slice_def)

lemma feed_continuations:
  assumes "rest \<noteq> []"
    and "inProgressHeader ch = Some h"
    and "inProgressPayload ch = Some buf"
    and "unat (PayloadLength h) = length (elems buf) + length rest"
    and "0 \<le> sq"
  shows "\<exists>payload.
           feed_packets grow ch (createResponsePackets_loop c cmd [] sq rest) =
             Inr (ch\<lparr>inProgressHeader := None, inProgressPayload := None\<rparr>, [(h, payload)]) \<and>
           take (length (elems buf) + length rest) (elems payload) = elems buf @ rest"
  using assms
proof (induction "length rest" arbitrary: rest ch buf sq rule: less_induct)
  case less
  let ?body = "take 59 rest @ replicate (59 - length (take 59 rest)) 0"
  let ?packet = "spec_continuation_packet c (of_int sq) (take 59 rest)"
  have packets: "createResponsePackets_loop c cmd [] sq rest =
      ?packet # createResponsePackets_loop c cmd [] (sq + 1) (drop 59 rest)"
    using less.prems(1,5) by (rule loop_cont_Cons)
  have msg: "elems (new_slice ?packet) = toLE32 c @ [of_int sq] @ ?body"
    by (simp add: new_slice_def spec_continuation_packet_def)
  have left: "int (unat (PayloadLength h)) - int (length (elems buf)) = int (length rest)"
    using less.prems(4) by simp
  note framing = channel_framing_continuation [OF less.prems(3) less.prems(2) msg, of grow]
  show ?case
  proof (cases "59 < length rest")
    case True
    then have body: "?body = take 59 rest" by simp
    let ?ch1 = "ch\<lparr>inProgressPayload := Some (append_slice grow buf (take 59 rest))\<rparr>"
    from True framing have f: "channel_framing grow ch (new_slice ?packet) =
        Inr (NeedFollowup ?ch1)"
      unfolding left body by simp
    from True have ne: "drop 59 rest \<noteq> []" and sh: "length (drop 59 rest) < length rest"
      by simp_all
    have len: "unat (PayloadLength h) =
        length (elems (append_slice grow buf (take 59 rest))) + length (drop 59 rest)"
      using less.prems(4) True by (simp add: elems_append_slice)
    from less.hyps [OF sh ne, of ?ch1 "append_slice grow buf (take 59 rest)" "sq + 1"]
         less.prems(2,5) len
    obtain payload where
      p: "feed_packets grow ?ch1 (createResponsePackets_loop c cmd [] (sq + 1) (drop 59 rest)) =
            Inr (?ch1\<lparr>inProgressHeader := None, inProgressPayload := None\<rparr>, [(h, payload)])"
      and t: "take (length (elems (append_slice grow buf (take 59 rest))) + length (drop 59 rest))
                (elems payload) = elems (append_slice grow buf (take 59 rest)) @ drop 59 rest"
      by auto
    from t True have "take (length (elems buf) + length rest) (elems payload) = elems buf @ rest"
      by (simp add: elems_append_slice)
    with p show ?thesis
      unfolding packets by (simp add: f)
  next
    case False
    then have dr: "drop 59 rest = []" and tk: "take 59 rest = rest" by simp_all
    from False framing have f: "channel_framing grow ch (new_slice ?packet) =
        Inr (Finalized (ch\<lparr>inProgressHeader := None, inProgressPayload := None\<rparr>) h
               (append_slice grow buf ?body))"
      unfolding left by simp
    show ?thesis
      unfolding packets dr loop_empty
      by (simp add: f [unfolded tk] elems_append_slice tk)
  qed
qed


lemma unat_of_nat16: "n < 65536 \<Longrightarrow> unat (of_nat n :: 16 word) = n"
  by (simp add: unat_of_nat)

text \<open>Claim C3, as amended. For every channel id, command and non-empty payload of fewer
  than 65536 bytes, the packets of \<open>createResponsePackets\<close>, delivered in order to a
  channel that is idle, hand exactly one message to the dispatcher and leave the channel
  idle. The header of that message has the command and the payload
  length of the original. A payload of at most 57 bytes (one packet) arrives byte for byte;
  a longer one (one initial packet and its continuation packets) arrives as the first
  bytes of the payload handed over.\<close>

theorem createResponsePackets_round_trip:
  assumes "inProgressHeader channel = None"
    and "inProgressPayload channel = None"
    and "p \<noteq> []"
    and "length p < 65536"
  shows "\<exists>payload.
           feed_packets grow channel (createResponsePackets c cmd p) =
             Inr (channel,
                  [(\<lparr>ChannelID = channelId channel, Command = cmd,
                     PayloadLength = of_nat (length p)\<rparr>, payload)]) \<and>
           (if length p \<le> 57 then elems payload = p
            else take (length p) (elems payload) = p)"
proof -
  let ?len = "of_nat (length p) :: 16 word"
  let ?header = "\<lparr>ChannelID = channelId channel, Command = cmd, PayloadLength = ?len\<rparr>"
  let ?body = "take 57 p @ replicate (57 - length (take 57 p)) 0"
  let ?packet = "spec_initial_packet c cmd ?len (take 57 p)"
  have packets: "createResponsePackets c cmd p =
      ?packet # createResponsePackets_loop c cmd [] 0 (drop 57 p)"
    using assms(3) by (rule createResponsePackets_Cons)
  have msg: "elems (new_slice ?packet) = toLE32 c @ [cmd] @ toBE16 ?len @ ?body"
    by (simp add: new_slice_def spec_initial_packet_def)
  have sp: "spare (new_slice ?packet) = []"
    by (simp add: new_slice_def)
  have ulen: "unat ?len = length p"
    using assms(4) by (rule unat_of_nat16)
  have u57: "unat (of_nat (length ?body) :: 16 word) = 57"
    by (simp add: unat_of_nat)
  show ?thesis
  proof (cases "length p \<le> 57")
    case True
    then have le: "?len \<le> of_nat (length ?body)"
      unfolding word_le_nat_alt ulen u57 .
    from True have dr: "drop 57 p = []" and tk: "take (length p) ?body = p" by simp_all
    from channel_framing_initial_complete [OF assms(2) msg le, of grow]
    have f: "channel_framing grow channel (new_slice ?packet) =
        Inr (Finalized channel ?header
               \<lparr>elems = p, spare = drop (length p) ?body @ []\<rparr>)"
      unfolding ulen tk sp .
    have "feed_packets grow channel (createResponsePackets c cmd p) =
        Inr (channel, [(?header, \<lparr>elems = p, spare = drop (length p) ?body @ []\<rparr>)])"
      unfolding packets dr loop_empty by (simp add: f)
    with True show ?thesis by simp
  next
    case False
    then have lt: "of_nat (length ?body) < ?len"
      unfolding word_less_nat_alt ulen u57 by simp
    from False have body: "?body = take 57 p" and ne: "drop 57 p \<noteq> []" by simp_all
    let ?buf = "\<lparr>elems = take 57 p, spare = []\<rparr>"
    let ?ch1 = "channel\<lparr>inProgressHeader := Some ?header, inProgressPayload := Some ?buf\<rparr>"
    from channel_framing_initial_incomplete [OF assms(2) msg lt, of grow]
    have f: "channel_framing grow channel (new_slice ?packet) = Inr (NeedFollowup ?ch1)"
      unfolding body sp .
    have total: "unat (PayloadLength ?header) = length (elems ?buf) + length (drop 57 p)"
      using False ulen by simp
    from feed_continuations [of "drop 57 p" ?ch1 ?header ?buf 0 grow c cmd, OF ne _ _ total]
    obtain payload where
      d: "feed_packets grow ?ch1 (createResponsePackets_loop c cmd [] 0 (drop 57 p)) =
            Inr (?ch1\<lparr>inProgressHeader := None, inProgressPayload := None\<rparr>,
                 [(?header, payload)])"
      and t: "take (length (elems ?buf) + length (drop 57 p)) (elems payload) =
                elems ?buf @ drop 57 p"
      by auto
    from t False have "take (length p) (elems payload) = p" by simp
    moreover have "?ch1\<lparr>inProgressHeader := None, inProgressPayload := None\<rparr> = channel"
      using assms(1,2) by simp
    ultimately show ?thesis
      using False d unfolding packets by (simp add: f)
  qed
qed

theorem createResponsePackets_round_trip_witness:
  "inProgressHeader (NewCTAPHIDChannel 1) = None \<and>
   inProgressPayload (NewCTAPHIDChannel 1) = None \<and>
   replicate 58 (7 :: byte) \<noteq> [] \<and>
   length (replicate 58 (7 :: byte)) < 65536 \<and>
   (\<exists>payload.
      feed_packets (\<lambda>a b. 0) (NewCTAPHIDChannel 1)
          (createResponsePackets 1 CTAPHID_COMMAND_PING (replicate 58 7)) =
        Inr (NewCTAPHIDChannel 1,
             [(\<lparr>ChannelID = 1, Command = CTAPHID_COMMAND_PING, PayloadLength = 58\<rparr>,
               payload)]) \<and>
      take 58 (elems payload) = replicate 58 7)"
proof -
  have h1: "inProgressHeader (NewCTAPHIDChannel 1) = None"
    and h2: "inProgressPayload (NewCTAPHIDChannel 1) = None"
    and c: "channelId (NewCTAPHIDChannel 1) = 1"
    by (simp_all add: NewCTAPHIDChannel_def)
  have h3: "replicate 58 (7 :: byte) \<noteq> []"
    and h4: "length (replicate 58 (7 :: byte)) < 65536"
    by simp_all
  from createResponsePackets_round_trip [OF h1 h2 h3 h4, of "\<lambda>a b. 0" 1 CTAPHID_COMMAND_PING]
  have "\<exists>payload.
      feed_packets (\<lambda>a b. 0) (NewCTAPHIDChannel 1)
          (createResponsePackets 1 CTAPHID_COMMAND_PING (replicate 58 7)) =
        Inr (NewCTAPHIDChannel 1,
             [(\<lparr>ChannelID = 1, Command = CTAPHID_COMMAND_PING, PayloadLength = 58\<rparr>,
               payload)]) \<and>
      take 58 (elems payload) = replicate 58 7"
    unfolding c by simp
  with h1 h2 h3 h4 show ?thesis by (intro conjI)
qed

text \<open>Claim C3 fails as stated at the payload length 0, which it lists: the encoding of an
  empty payload has no packet, so nothing is delivered and no message reaches the
  dispatcher.\<close>

theorem empty_payload_round_trip_counterexample:
  "feed_packets (\<lambda>a b. 0) (NewCTAPHIDChannel 1)
     (createResponsePackets 1 CTAPHID_COMMAND_PING []) = Inr (NewCTAPHIDChannel 1, [])"
  by (simp add: createResponsePackets_Nil)


subsection \<open>The last continuation packet\<close>

text \<open>Claim C4 does not hold of the code. A channel is assembling a message that declared
  58 payload bytes and has 57 of them; the continuation packet brings the one byte that
  is left, followed by 58 bytes of padding. The branch appends all 59 bytes of the packet
  and hands the buffer to the dispatcher as it is: 116 bytes, not 58. (The branch of an
  initial packet cuts its payload to the declared length.)\<close>

theorem followup_not_truncated:
  "channel_framing (\<lambda>a b. 0)
     ((NewCTAPHIDChannel 1)
        \<lparr>inProgressHeader :=
           Some \<lparr>ChannelID = 1, Command = CTAPHID_COMMAND_PING, PayloadLength = 58\<rparr>,
         inProgressPayload := Some (new_slice (replicate 57 7))\<rparr>)
     (new_slice ([1, 0, 0, 0, 0, 7] @ replicate 58 0)) =
     Inr (Finalized (NewCTAPHIDChannel 1)
            \<lparr>ChannelID = 1, Command = CTAPHID_COMMAND_PING, PayloadLength = 58\<rparr>
            \<lparr>elems = replicate 57 7 @ [7] @ replicate 58 0, spare = []\<rparr>) \<and>
   length (replicate 57 (7 :: byte) @ [7] @ replicate 58 0) = 116"
  by (simp add: channel_framing_def NewCTAPHIDChannel_def new_slice_def slice_from_def
        sizeOf_CTAPHIDChannelID_def append_slice_def)


subsection \<open>Waiting for a response\<close>

text \<open>Claim C8 does not hold of the code. A caller stores its kill switch under the id 7,
  a packet is sent, and the \<^verbatim>\<open>select\<close> of \<^verbatim>\<open>getResponse\<close> takes the packet. The call
  returns the packet, and the kill switch is still stored under 7: only the other case of
  the \<^verbatim>\<open>select\<close> deletes it. A later \<^verbatim>\<open>removeWaitingRequest\<close> for 7 finds the stale kill
  switch and sends on it.\<close>

theorem getResponse_delivery_keeps_killSwitch:
  "getResponse_select
     (sendResponse (getResponse_store (newCTAPHIDServer (\<lambda>x. []) (\<lambda>x. [])) 7 0)
        [replicate 64 0])
     7 ResponseReceived =
     Some ((newCTAPHIDServer (\<lambda>x. []) (\<lambda>x. []))\<lparr>waitingForResponses := [7 \<mapsto> 0]\<rparr>,
           Some (replicate 64 0)) \<and>
   removeWaitingRequest
     ((newCTAPHIDServer (\<lambda>x. []) (\<lambda>x. []))\<lparr>waitingForResponses := [7 \<mapsto> 0]\<rparr>) 7 =
     (Some 0, True)"
  by (simp add: getResponse_select_def sendResponse_def getResponse_store_def
        newCTAPHIDServer_def removeWaitingRequest_def)

text \<open>Claim C9, as amended. The value that \<^verbatim>\<open>getResponse\<close> returns by delivery is the
  oldest packet on the one queue \<open>responses\<close> that every \<^verbatim>\<open>sendResponse\<close> appends to; it
  does not depend on the caller's id, which is used for the kill switch only.\<close>

theorem getResponse_delivers_queue_head:
  "map_option snd (getResponse_select (sendResponse server packets) ident ResponseReceived) =
     (case responses server @ packets of [] \<Rightarrow> None | response # rest \<Rightarrow> Some (Some response))"
  by (simp add: getResponse_select_def sendResponse_def split: list.splits)

text \<open>Claim C9 fails as stated: two callers wait under the ids 1 and 2, the PING responses
  of channel 1 and of channel 2 are sent in this order, and the caller with the id 2, if
  its \<^verbatim>\<open>select\<close> runs first, receives the packet of channel 1.\<close>

theorem shared_queue_counterexample:
  "map_option snd
     (getResponse_select
        (sendResponse
           (sendResponse
              (getResponse_store
                 (getResponse_store (newCTAPHIDServer (\<lambda>x. []) (\<lambda>x. [])) 1 0) 2 1)
              (createResponsePackets 1 CTAPHID_COMMAND_PING [0x41]))
           (createResponsePackets 2 CTAPHID_COMMAND_PING [0x42]))
        2 ResponseReceived) =
     Some (Some ([1, 0, 0, 0, 0x81, 0, 1, 0x41] @ replicate 56 0))"
  by (simp add: getResponse_select_def sendResponse_def getResponse_store_def
        newCTAPHIDServer_def createResponsePackets_Cons loop_empty spec_initial_packet_def
        toBE16_1 toLE32_def CTAPHID_COMMAND_PING_def)

end
